theory Spec2Isabelle
  imports Main "HOL-Library.Word"
begin

section \<open>Memory\<close>

text \<open>
  DVTableChecks.cpp looks at objects through raw pointers: \<^verbatim>\<open>(long **)&t\<close> and
  \<^verbatim>\<open>vtable[0][idx]\<close>. The model is an explicit store of 8-byte words (LP64: pointers,
  \<^verbatim>\<open>long\<close> and \<^verbatim>\<open>unsigned long\<close> are 64 bits wide), addressed by the byte address of
  the word. An address that is not mapped has no value; reading it is a fault of the
  program, which the model returns as a value instead of hiding it.
\<close>

type_synonym addr = "64 word"
type_synonym long = "64 word"
type_synonym ulong = "64 word"
type_synonym heap = "addr \<Rightarrow> long option"

datatype fault = UnmappedRead addr

section \<open>getVirtualMethodCount\<close>

text \<open>
  \<^verbatim>\<open>
  template <class T>
  unsigned long getVirtualMethodCount(T& t)
  {
      long **vtable = (long **)&t;
      unsigned long idx;
      for (idx = 0; vtable[0][idx] != 0; idx++);
      return idx;
  }
  \<close>
  \<^verbatim>\<open>vtable[0]\<close> is the first word of the object \<open>t\<close>; \<^verbatim>\<open>vtable[0][idx]\<close> is the word at
  that address plus \<open>8 * idx\<close>. The loop has no bound of its own, so it is a partial
  function: \<open>None\<close> is the run that never reaches \<^verbatim>\<open>return\<close>.
\<close>

partial_function (option) getVirtualMethodCount_loop ::
  "heap \<Rightarrow> addr \<Rightarrow> ulong \<Rightarrow> (fault + ulong) option" where
  "getVirtualMethodCount_loop h vtable0 idx =
     (case h (vtable0 + 8 * idx) of
        None \<Rightarrow> Some (Inl (UnmappedRead (vtable0 + 8 * idx)))
      | Some v \<Rightarrow>
          if v \<noteq> 0 then getVirtualMethodCount_loop h vtable0 (idx + 1)
          else Some (Inr idx))"

definition getVirtualMethodCount :: "heap \<Rightarrow> addr \<Rightarrow> (fault + ulong) option" where
  "getVirtualMethodCount h t =
     (case h t of
        None \<Rightarrow> Some (Inl (UnmappedRead t))
      | Some vtable0 \<Rightarrow> getVirtualMethodCount_loop h vtable0 0)"

section \<open>Dispatch tables in memory\<close>

text \<open>
  The layout that the spec's data model calls a VirtualDispatchTable: the entries, none
  of them zero, in consecutive words, and a zero word after the last one. A fully
  constructed polymorphic instance has the address of such a table in its first word.
\<close>

fun table_at :: "heap \<Rightarrow> addr \<Rightarrow> long list \<Rightarrow> bool" where
  "table_at h a [] = (h a = Some 0)"
| "table_at h a (e # es) = (e \<noteq> 0 \<and> h a = Some e \<and> table_at h (a + 8) es)"

definition instance_with_table :: "heap \<Rightarrow> addr \<Rightarrow> long list \<Rightarrow> bool" where
  "instance_with_table h t es =
     (case h t of None \<Rightarrow> False | Some vtable0 \<Rightarrow> table_at h vtable0 es)"

section \<open>getVirtualMethodCountSCPDriver\<close>

text \<open>
  \<^verbatim>\<open>
  unsigned long getVirtualMethodCountSCPDriver ()
  {
      NodeID nodeID;
      SCPQuorumSet qSet;
      VTSCPDriver scpDriver(nodeID, qSet);

      int inheritance_depth = 2;
      int default_vmcount = 2;
      int total_default_vmcount = inheritance_depth * default_vmcount;
      return getVirtualMethodCount(scpDriver) - total_default_vmcount;
  }
  \<close>
  \<^verbatim>\<open>SCPDriver\<close> and \<^verbatim>\<open>SCP\<close> are declared in headers outside this file, so the
  constructed object is a parameter: \<open>h\<close> is the memory after the constructor has run
  and \<open>scpDriver\<close> the address of the local object. The two \<^verbatim>\<open>int\<close>s are 32-bit
  words; in the subtraction the \<^verbatim>\<open>int\<close> is converted to \<^verbatim>\<open>unsigned long\<close> (sign
  extension, \<open>scast\<close>) and the difference is taken modulo \<open>2 ^ 64\<close>.
\<close>

definition getVirtualMethodCountSCPDriver :: "heap \<Rightarrow> addr \<Rightarrow> (fault + ulong) option" where
  "getVirtualMethodCountSCPDriver h scpDriver =
     (let inheritance_depth = (2 :: 32 word);
          default_vmcount = (2 :: 32 word);
          total_default_vmcount = inheritance_depth * default_vmcount
      in case getVirtualMethodCount h scpDriver of
           None \<Rightarrow> None
         | Some (Inl f) \<Rightarrow> Some (Inl f)
         | Some (Inr n) \<Rightarrow> Some (Inr (n - scast total_default_vmcount)))"

section \<open>VTSCPDriver::computeTimeout\<close>

text \<open>
  \<^verbatim>\<open>
  std::chrono::milliseconds
  computeTimeout(uint32 roundNumber)
  {
      std::chrono::milliseconds(100);
  }
  \<close>
  A function body is a list of statements. An expression statement computes a value
  and drops it; only \<^verbatim>\<open>return\<close> hands a value to the caller. A body that runs to its
  closing brace hands over nothing, which in a function with a result type is an error
  of the call. The sibling \<^verbatim>\<open>computeHashNode\<close>, whose body is \<^verbatim>\<open>return 0L;\<close>, is
  given for comparison.
\<close>

datatype 'v stmt = Expr 'v | Return 'v

fun run_body :: "'v stmt list \<Rightarrow> 'v option" where
  "run_body [] = None"
| "run_body (Expr v # rest) = run_body rest"
| "run_body (Return v # rest) = Some v"

datatype call_error = NoReturnValue

definition call_non_void :: "'v stmt list \<Rightarrow> call_error + 'v" where
  "call_non_void body = (case run_body body of None \<Rightarrow> Inl NoReturnValue | Some v \<Rightarrow> Inr v)"

type_synonym milliseconds = int

definition computeTimeout_body :: "32 word \<Rightarrow> milliseconds stmt list" where
  "computeTimeout_body roundNumber = [Expr 100]"

definition computeTimeout :: "32 word \<Rightarrow> call_error + milliseconds" where
  "computeTimeout roundNumber = call_non_void (computeTimeout_body roundNumber)"

definition computeHashNode_body :: "64 word stmt list" where
  "computeHashNode_body = [Return 0]"

definition computeHashNode :: "call_error + 64 word" where
  "computeHashNode = call_non_void computeHashNode_body"

section \<open>Classes A and B, doCheckMethodPoint\<close>

text \<open>
  \<^verbatim>\<open>
  class A { public: int n1 = 1; void func1() { n1++; }
            virtual void vfunc1(){}; virtual void vfunc2(){}; };
  class B : public A { public: int n2 = 2; void func2() { n2++; }
            virtual void vfunc3(){}; virtual void vfunc4(){}; };
  \<close>
  The virtual functions, in the order of their declarations.
\<close>

datatype vmethod = vfunc1 | vfunc2 | vfunc3 | vfunc4

definition A_virtuals :: "vmethod list" where
  "A_virtuals = [vfunc1, vfunc2]"

definition B_virtuals :: "vmethod list" where
  "B_virtuals = [vfunc3, vfunc4]"

text \<open>
  What the compiler decides is a parameter of the check: the table address that the
  constructor of \<^verbatim>\<open>B\<close> installs, and the first word of each pointer to member
  \<^verbatim>\<open>&B::vfuncN\<close>, which is what \<^verbatim>\<open>(long)reinterpret_cast<void *&>(bfuncN)\<close> reads.
\<close>

record abi =
  vtable_of_B :: addr
  member_pointer :: "vmethod \<Rightarrow> long"

text \<open>
  The state the function can change: memory, and the calls of \<^verbatim>\<open>printf\<close> made so far
  (format string and argument).
\<close>

record world =
  mem :: heap
  out :: "(string \<times> long) list"

text \<open>
  The object that \<^verbatim>\<open>new B()\<close> builds, in two words: the table address, then \<^verbatim>\<open>n1 = 1\<close>
  in the low four bytes and \<^verbatim>\<open>n2 = 2\<close> in the high four bytes of the second word.
\<close>

definition B_fields :: long where
  "B_fields = 2 * 2 ^ 32 + 1"

definition printed :: "abi \<Rightarrow> (string \<times> long) list" where
  "printed abi =
     [(''B.vfunc1    :   %d'' @ [CHR 0x0A], member_pointer abi vfunc1),
      (''B.vfunc2    :   %d'' @ [CHR 0x0A], member_pointer abi vfunc2),
      (''B.vfunc3    :   %d'' @ [CHR 0x0A], member_pointer abi vfunc3),
      (''B.vfunc4    :   %d'' @ [CHR 0x0A], member_pointer abi vfunc4)]"

text \<open>
  \<^verbatim>\<open>
  int doCheckMethodPoint ()
  {
      B *table = new B();
      void **pvftable = (void **)(*(long *)table);
      auto bfunc1 = &B::vfunc1;
      if ((long)reinterpret_cast<void *&>(bfunc1) != 1)  return 1;
      auto bfunc2 = &B::vfunc2;
      if ((long)reinterpret_cast<void *&>(bfunc2) != 9)  return 9;
      auto bfunc3 = &B::vfunc3;
      if ((long)reinterpret_cast<void *&>(bfunc3) != 17) return 17;
      auto bfunc4 = &B::vfunc4;
      if ((long)reinterpret_cast<void *&>(bfunc4) != 25) return 25;
      printf("B.vfunc1    :   %d\n", &B::vfunc1);   // and vfunc2, vfunc3, vfunc4
      return 0;
  }
  \<close>
  \<open>table\<close> is the address that \<^verbatim>\<open>operator new\<close> returns. The object is never deleted.
  \<open>pvftable\<close> is read and not used.
\<close>

definition doCheckMethodPoint :: "abi \<Rightarrow> addr \<Rightarrow> world \<Rightarrow> 32 word \<times> world" where
  "doCheckMethodPoint abi table w =
     (let w1 = w\<lparr>mem := (mem w)(table \<mapsto> vtable_of_B abi, table + 8 \<mapsto> B_fields)\<rparr>;
          pvftable = mem w1 table;
          bfunc1 = member_pointer abi vfunc1
      in if bfunc1 \<noteq> 1 then (1, w1)
         else let bfunc2 = member_pointer abi vfunc2
         in if bfunc2 \<noteq> 9 then (9, w1)
         else let bfunc3 = member_pointer abi vfunc3
         in if bfunc3 \<noteq> 17 then (17, w1)
         else let bfunc4 = member_pointer abi vfunc4
         in if bfunc4 \<noteq> 25 then (25, w1)
         else (0, w1\<lparr>out := out w1 @ printed abi\<rparr>))"

section \<open>The conventions of the target ABI\<close>

text \<open>
  Modelled from the spec: the encoding of a pointer to a virtual member function, which
  the compiler computes and DVTableChecks.cpp only compares with constants. Section 3:
  \<^verbatim>\<open>rawValue = index * pointerWidth + 1\<close>.
\<close>

definition encode :: "int \<Rightarrow> int \<Rightarrow> int" where
  "encode index pointerWidth = index * pointerWidth + 1"

text \<open>
  Modelled from the spec: the order of the slots of a table, which the compiler lays out.
  Section 3: the order is that of the declarations across the inheritance chain; with
  single inheritance and no overriding, the slots of the base come first.
\<close>

definition slots_of_chain :: "'m list list \<Rightarrow> 'm list" where
  "slots_of_chain levels = concat levels"

fun index_of :: "'m \<Rightarrow> 'm list \<Rightarrow> nat option" where
  "index_of m [] = None"
| "index_of m (x # xs) = (if m = x then Some 0 else map_option Suc (index_of m xs))"

definition member_pointer_in :: "'m list \<Rightarrow> int \<Rightarrow> 'm \<Rightarrow> int option" where
  "member_pointer_in slots pointerWidth m =
     map_option (\<lambda>i. encode (int i) pointerWidth) (index_of m slots)"

definition slots_of_B :: "vmethod list" where
  "slots_of_B = slots_of_chain [A_virtuals, B_virtuals]"

text \<open>
  The parameters of \<open>doCheckMethodPoint\<close> under these conventions, with 8-byte pointers.
  Every function of \<open>vmethod\<close> has a slot in the table of \<^verbatim>\<open>B\<close>; the null value of the
  other branch is never taken.
\<close>

definition lp64_abi :: "addr \<Rightarrow> abi" where
  "lp64_abi vt =
     \<lparr>vtable_of_B = vt,
      member_pointer =
        (\<lambda>m. case member_pointer_in slots_of_B 8 m of
                None \<Rightarrow> 0
              | Some raw \<Rightarrow> word_of_int raw)\<rparr>"

section \<open>decodeSlot\<close>

text \<open>
  Modelled from the spec: \<^verbatim>\<open>decodeSlot\<close>, which DVTableChecks.cpp does not define (its
  \<open>doCheckMethodPoint\<close> compares four encodings with the constants 1, 9, 17 and 25 and
  decodes nothing). Section 4.2: \<^verbatim>\<open>index = (rawValue - 1) / pointerWidth\<close>; validate that
  \<^verbatim>\<open>rawValue\<close> is odd and that \<^verbatim>\<open>rawValue - 1\<close> is an exact multiple of
  \<^verbatim>\<open>pointerWidth\<close> before accepting the quotient; fail with
  \<^verbatim>\<open>NotAVirtualMemberPointer\<close> when the low bit is unset or the quotient is negative.
  The checks are made in the order of that sentence. The spec names no outcome for the
  one input that passes both checks and has no quotient (raw value 1, pointer width 0);
  the model keeps it apart as \<open>UndefinedQuotient\<close>. Where the division is exact, rounding
  towards zero and rounding down give the same quotient.
\<close>

datatype decode_error = NotAVirtualMemberPointer | UndefinedQuotient

definition decodeSlot :: "int \<Rightarrow> int \<Rightarrow> decode_error + int" where
  "decodeSlot rawValue pointerWidth =
     (if even rawValue then Inl NotAVirtualMemberPointer
      else if \<not> pointerWidth dvd (rawValue - 1) then Inl NotAVirtualMemberPointer
      else if pointerWidth = 0 then Inl UndefinedQuotient
      else let index = (rawValue - 1) div pointerWidth
           in if index < 0 then Inl NotAVirtualMemberPointer else Inr index)"

section \<open>validate\<close>

text \<open>
  Modelled from the spec: \<^verbatim>\<open>validate\<close>, with its descriptor and its expected count.
  DVTableChecks.cpp has the measuring half only, \<open>getVirtualMethodCountSCPDriver\<close>, with
  depth 2 and baseline 2 written into it; the comparison with the expected count is made
  by its caller, outside this file. Section 4.3: \<^verbatim>\<open>observed = countSlots(instance)\<close>;
  \<^verbatim>\<open>attributable = observed - descriptor.chainDepth * descriptor.baselinePerLevel\<close>;
  returns \<^verbatim>\<open>attributable == expectedInterfaceSlots\<close>. \<^verbatim>\<open>countSlots\<close> is
  \<open>getVirtualMethodCount\<close>; the integers of the spec are unbounded.
\<close>

record InheritanceShapeDescriptor =
  chainDepth :: int
  baselinePerLevel :: int

definition validate ::
  "heap \<Rightarrow> addr \<Rightarrow> InheritanceShapeDescriptor \<Rightarrow> int \<Rightarrow> (fault + bool) option" where
  "validate h inst descriptor expectedInterfaceSlots =
     (case getVirtualMethodCount h inst of
        None \<Rightarrow> None
      | Some (Inl f) \<Rightarrow> Some (Inl f)
      | Some (Inr n) \<Rightarrow>
          (let observed = uint n;
               attributable = observed - chainDepth descriptor * baselinePerLevel descriptor
           in Some (Inr (attributable = expectedInterfaceSlots))))"

section \<open>The two-level scenario\<close>


text \<open>Names for the six slots of an example of the scenario.\<close>

datatype scenario_method = Baseline nat nat | Declared nat

section \<open>The operations as steps on the state\<close>

text \<open>
  For the question of what the operations change, the same operations with the state
  handed through them. Every access of \<open>getVirtualMethodCount\<close> to memory is a load,
  \<^verbatim>\<open>vtable[0]\<close> and \<^verbatim>\<open>vtable[0][idx]\<close>; its source has no store and no call. The loop
  is the loop of the function above, with the state passed from one load to the next.
\<close>

definition load :: "addr \<Rightarrow> world \<Rightarrow> long option \<times> world" where
  "load a w = (mem w a, w)"

partial_function (option) getVirtualMethodCount_run_loop ::
  "addr \<Rightarrow> ulong \<Rightarrow> world \<Rightarrow> ((fault + ulong) \<times> world) option" where
  "getVirtualMethodCount_run_loop vtable0 idx w =
     (case load (vtable0 + 8 * idx) w of
        (None, w') \<Rightarrow> Some (Inl (UnmappedRead (vtable0 + 8 * idx)), w')
      | (Some v, w') \<Rightarrow>
          if v \<noteq> 0 then getVirtualMethodCount_run_loop vtable0 (idx + 1) w'
          else Some (Inr idx, w'))"

definition getVirtualMethodCount_run ::
  "addr \<Rightarrow> world \<Rightarrow> ((fault + ulong) \<times> world) option" where
  "getVirtualMethodCount_run t w =
     (case load t w of
        (None, w') \<Rightarrow> Some (Inl (UnmappedRead t), w')
      | (Some vtable0, w') \<Rightarrow> getVirtualMethodCount_run_loop vtable0 0 w')"

text \<open>
  Modelled from the spec: \<^verbatim>\<open>validate\<close> as a step, the step of the counter followed by
  the comparison of section 4.3.
\<close>

definition validate_run ::
  "addr \<Rightarrow> InheritanceShapeDescriptor \<Rightarrow> int \<Rightarrow> world \<Rightarrow> ((fault + bool) \<times> world) option" where
  "validate_run inst descriptor expectedInterfaceSlots w =
     (case getVirtualMethodCount_run inst w of
        None \<Rightarrow> None
      | Some (Inl f, w') \<Rightarrow> Some (Inl f, w')
      | Some (Inr n, w') \<Rightarrow>
          (let observed = uint n;
               attributable = observed - chainDepth descriptor * baselinePerLevel descriptor
           in Some (Inr (attributable = expectedInterfaceSlots), w')))"

text \<open>
  Modelled from the spec: \<^verbatim>\<open>decodeSlot\<close> as a step. Section 4.2 calls it a purely
  numeric step: it computes on its two numbers and has no access to the state.
\<close>

definition decodeSlot_run ::
  "int \<Rightarrow> int \<Rightarrow> world \<Rightarrow> ((decode_error + int) \<times> world) option" where
  "decodeSlot_run rawValue pointerWidth w = Some (decodeSlot rawValue pointerWidth, w)"

section \<open>Example memories\<close>

text \<open>
  Two small memories, each with an object at address 4096 whose first word is the
  address 8192 of a zero-terminated table: one of four entries, one of six.
\<close>

definition four_slot_heap :: heap where
  "four_slot_heap = [4096 \<mapsto> 8192, 8192 \<mapsto> 4198400, 8200 \<mapsto> 4198416, 8208 \<mapsto> 4198432,
     8216 \<mapsto> 4198448, 8224 \<mapsto> 0]"

definition four_entries :: "long list" where
  "four_entries = [4198400, 4198416, 4198432, 4198448]"

definition six_slot_heap :: heap where
  "six_slot_heap = [4096 \<mapsto> 8192, 8192 \<mapsto> 4198400, 8200 \<mapsto> 4198416, 8208 \<mapsto> 4198432,
     8216 \<mapsto> 4198448, 8224 \<mapsto> 4198464, 8232 \<mapsto> 4198480, 8240 \<mapsto> 0]"


section \<open>The scan over a table\<close>

lemma loop_over_table:
  "table_at h (vtable0 + 8 * idx) es \<Longrightarrow>
   getVirtualMethodCount_loop h vtable0 idx = Some (Inr (idx + of_nat (length es)))"
proof (induction es arbitrary: idx)
  case Nil
  then show ?case
    by (subst getVirtualMethodCount_loop.simps) simp
next
  case (Cons e es)
  from Cons.prems have e: "e \<noteq> 0" "h (vtable0 + 8 * idx) = Some e"
    and rest: "table_at h (vtable0 + 8 * (idx + 1)) es"
    by (simp_all add: algebra_simps)
  from Cons.IH [OF rest] e show ?case
    by (subst getVirtualMethodCount_loop.simps) (simp add: algebra_simps)
qed

lemma table_at_entry:
  "table_at h a es \<Longrightarrow> k < length es \<Longrightarrow>
   h (a + 8 * of_nat k) = Some (es ! k) \<and> es ! k \<noteq> 0"
proof (induction es arbitrary: a k)
  case Nil
  then show ?case by simp
next
  case (Cons e es)
  show ?case
  proof (cases k)
    case 0
    with Cons.prems show ?thesis by simp
  next
    case (Suc j)
    with Cons.prems have "table_at h (a + 8) es" "j < length es" by simp_all
    from Cons.IH [OF this] Suc show ?thesis
      by (simp add: algebra_simps)
  qed
qed

lemma table_at_sentinel:
  "table_at h a es \<Longrightarrow> h (a + 8 * of_nat (length es)) = Some 0"
proof (induction es arbitrary: a)
  case Nil
  then show ?case by simp
next
  case (Cons e es)
  then have "table_at h (a + 8) es" by simp
  from Cons.IH [OF this] show ?case
    by (simp add: algebra_simps)
qed

text \<open>
  A table cannot wrap around the 64-bit address space: with \<open>2 ^ 61\<close> entries or more,
  the word of the sentinel would also be the word of an entry.
\<close>

lemma table_at_length:
  assumes "table_at h a es"
  shows "length es < 2 ^ 61"
proof (rule ccontr)
  assume "\<not> length es < 2 ^ 61"
  then have ge: "2 ^ 61 \<le> length es" by simp
  define k where "k = length es - 2 ^ 61"
  have k: "k < length es" and n: "length es = k + 2 ^ 61"
    using ge by (simp_all add: k_def)
  have "(8 :: 64 word) * of_nat (length es) = 8 * of_nat k + 8 * 2 ^ 61"
    by (subst n) (simp add: algebra_simps)
  also have "(8 :: 64 word) * 2 ^ 61 = 0" by simp
  finally have same: "a + 8 * of_nat (length es) = a + 8 * of_nat k" by simp
  from table_at_entry [OF assms k] table_at_sentinel [OF assms] same
  show False by simp
qed

text \<open>
  The loop returns only where it has read a zero word, and faults only where it has
  read an unmapped one.
\<close>

lemma loop_stops_at_zero_or_unmapped:
  assumes "getVirtualMethodCount_loop h vtable0 idx = Some r"
  shows "case r of Inl f \<Rightarrow> \<exists>k. f = UnmappedRead (vtable0 + 8 * k) \<and> h (vtable0 + 8 * k) = None
            | Inr i \<Rightarrow> h (vtable0 + 8 * i) = Some 0"
  using assms
proof (rule getVirtualMethodCount_loop.raw_induct [rotated], goal_cases)
  case (1 rec h vtable0 idx r)
  then show ?case
    by (auto split: option.splits if_splits)
qed

lemma unat_next:
  fixes idx j :: ulong
  assumes "idx < j"
  shows "unat (idx + 1) = Suc (unat idx)"
  using assms by unat_arith

text \<open>
  A zero word at index \<open>j\<close>, with mapped words before it, stops the loop at the
  first zero word at or after its starting index. The measure is the distance to \<open>j\<close>.
\<close>

lemma loop_reaches_sentinel:
  fixes idx j :: ulong
  assumes "idx \<le> j" and "h (vtable0 + 8 * j) = Some 0"
    and "\<forall>k. idx \<le> k \<and> k < j \<longrightarrow> h (vtable0 + 8 * k) \<noteq> None"
  shows "\<exists>i. getVirtualMethodCount_loop h vtable0 idx = Some (Inr i) \<and> idx \<le> i \<and> i \<le> j \<and>
             h (vtable0 + 8 * i) = Some 0 \<and>
             (\<forall>k. idx \<le> k \<and> k < i \<longrightarrow> h (vtable0 + 8 * k) \<noteq> Some 0)"
  using assms
proof (induction "unat j - unat idx" arbitrary: idx)
  case 0
  then have "idx = j" by (simp add: word_le_nat_alt word_unat_eq_iff)
  with 0 show ?case
    by (subst getVirtualMethodCount_loop.simps) auto
next
  case (Suc n)
  then have lt: "idx < j" by (simp add: word_less_nat_alt)
  with Suc.prems obtain v where v: "h (vtable0 + 8 * idx) = Some v" by auto
  show ?case
  proof (cases "v = 0")
    case True
    with v Suc.prems show ?thesis
      by (subst getVirtualMethodCount_loop.simps) auto
  next
    case False
    from lt have le': "idx + 1 \<le> j" by (rule inc_le)
    from lt have step: "idx < idx + 1"
      by (simp add: word_less_nat_alt unat_next)
    have n: "n = unat j - unat (idx + 1)"
      using Suc.hyps(2) lt by (simp add: unat_next)
    have mapped: "\<forall>k. idx + 1 \<le> k \<and> k < j \<longrightarrow> h (vtable0 + 8 * k) \<noteq> None"
      using Suc.prems(3) step by auto
    from Suc.hyps(1) [OF n le' Suc.prems(2) mapped]
    obtain i where i: "getVirtualMethodCount_loop h vtable0 (idx + 1) = Some (Inr i)"
      "idx + 1 \<le> i" "i \<le> j" "h (vtable0 + 8 * i) = Some 0"
      "\<forall>k. idx + 1 \<le> k \<and> k < i \<longrightarrow> h (vtable0 + 8 * k) \<noteq> Some 0" by blast
    have "\<forall>k. idx \<le> k \<and> k < i \<longrightarrow> h (vtable0 + 8 * k) \<noteq> Some 0"
    proof (intro allI impI)
      fix k assume k: "idx \<le> k \<and> k < i"
      show "h (vtable0 + 8 * k) \<noteq> Some 0"
      proof (cases "k = idx")
        case True with v False show ?thesis by simp
      next
        case False
        with k have "idx < k" by (auto simp: word_le_less_eq)
        then have "idx + 1 \<le> k" by (rule inc_le)
        with i(5) k show ?thesis by blast
      qed
    qed
    moreover have "idx \<le> i" using step i(2) by simp
    moreover have "getVirtualMethodCount_loop h vtable0 idx = Some (Inr i)"
      using v False i(1) by (subst getVirtualMethodCount_loop.simps) simp
    ultimately show ?thesis using i by blast
  qed
qed

lemma instance_with_table_count:
  assumes "instance_with_table h t es"
  shows "getVirtualMethodCount h t = Some (Inr (of_nat (length es)))"
proof -
  from assms obtain vtable0 where vt: "h t = Some vtable0" and tab: "table_at h vtable0 es"
    by (auto simp: instance_with_table_def split: option.splits)
  from tab have "table_at h (vtable0 + 8 * 0) es" by simp
  from loop_over_table [OF this] vt show ?thesis
    by (simp add: getVirtualMethodCount_def)
qed

section \<open>The steps and the functions agree\<close>

text \<open>
  A run of the loop on a state ends with the state it began with and with the result
  of the loop on that state's memory, and the other way round.
\<close>

lemma run_loop_sound:
  assumes "getVirtualMethodCount_run_loop vtable0 idx w = Some (r, w')"
  shows "w' = w \<and> getVirtualMethodCount_loop (mem w) vtable0 idx = Some r"
proof -
  have "snd (r, w') = w \<and> getVirtualMethodCount_loop (mem w) vtable0 idx = Some (fst (r, w'))"
  proof (rule getVirtualMethodCount_run_loop.raw_induct
      [where P = "\<lambda>vtable0 idx w p.
         snd p = w \<and> getVirtualMethodCount_loop (mem w) vtable0 idx = Some (fst p)",
       OF _ assms], goal_cases)
    case (1 rec vtable0 idx w p)
    show ?case
    proof (cases "mem w (vtable0 + 8 * idx)")
      case None
      with 1(2) show ?thesis
        by (subst getVirtualMethodCount_loop.simps) (auto simp: load_def)
    next
      case (Some v)
      show ?thesis
      proof (cases "v = 0")
        case True
        with Some 1(2) show ?thesis
          by (subst getVirtualMethodCount_loop.simps) (auto simp: load_def)
      next
        case False
        with Some 1(2) have "rec vtable0 (idx + 1) w = Some p" by (simp add: load_def)
        from 1(1) [OF this] Some False show ?thesis
          by (subst getVirtualMethodCount_loop.simps) simp
      qed
    qed
  qed
  then show ?thesis by simp
qed

lemma run_loop_complete:
  assumes "getVirtualMethodCount_loop h vtable0 idx = Some r"
  shows "mem w = h \<longrightarrow> getVirtualMethodCount_run_loop vtable0 idx w = Some (r, w)"
  using assms
proof (rule getVirtualMethodCount_loop.raw_induct [rotated], goal_cases)
  case (1 rec h vtable0 idx r)
  show ?case
  proof
    assume m: "mem w = h"
    show "getVirtualMethodCount_run_loop vtable0 idx w = Some (r, w)"
    proof (cases "h (vtable0 + 8 * idx)")
      case None
      with 1(2) m show ?thesis
        by (subst getVirtualMethodCount_run_loop.simps) (auto simp: load_def)
    next
      case (Some v)
      show ?thesis
      proof (cases "v = 0")
        case True
        with Some 1(2) m show ?thesis
          by (subst getVirtualMethodCount_run_loop.simps) (auto simp: load_def)
      next
        case False
        with Some 1(2) have "rec h vtable0 (idx + 1) = Some r" by simp
        from 1(1) [OF this] m Some False show ?thesis
          by (subst getVirtualMethodCount_run_loop.simps) (simp add: load_def)
      qed
    qed
  qed
qed

lemma run_loop_eq:
  "getVirtualMethodCount_run_loop vtable0 idx w =
   map_option (\<lambda>r. (r, w)) (getVirtualMethodCount_loop (mem w) vtable0 idx)"
proof (cases "getVirtualMethodCount_loop (mem w) vtable0 idx")
  case (Some r)
  with run_loop_complete [OF Some, of w] show ?thesis by simp
next
  case None
  show ?thesis
  proof (cases "getVirtualMethodCount_run_loop vtable0 idx w")
    case None
    with \<open>getVirtualMethodCount_loop (mem w) vtable0 idx = None\<close> show ?thesis by simp
  next
    case (Some p)
    then have "getVirtualMethodCount_run_loop vtable0 idx w = Some (fst p, snd p)" by simp
    from run_loop_sound [OF this] None show ?thesis by simp
  qed
qed

lemma getVirtualMethodCount_run_eq:
  "getVirtualMethodCount_run t w = map_option (\<lambda>r. (r, w)) (getVirtualMethodCount (mem w) t)"
  by (simp add: getVirtualMethodCount_run_def getVirtualMethodCount_def load_def run_loop_eq
      split: option.splits)

lemma validate_run_eq:
  "validate_run inst d e w = map_option (\<lambda>r. (r, w)) (validate (mem w) inst d e)"
  by (simp add: validate_run_def validate_def getVirtualMethodCount_run_eq Let_def
      split: option.splits sum.splits)

section \<open>Helper facts for the validator and the examples\<close>

text \<open>
  Below \<open>2 ^ 64 - 4\<close>, comparing the wrapped difference with an expected count is
  comparing the difference of the numbers.
\<close>

lemma uint_minus_4_eq:
  fixes n :: ulong
  assumes "0 \<le> e" "e < 2 ^ 64 - 4"
  shows "(uint (n - 4) = e) = (uint n - 4 = e)"
proof (cases "4 \<le> n")
  case True
  then have "uint (4 :: ulong) \<le> uint n" by (simp add: word_le_def)
  then have "uint (n - 4) = uint n - 4" by (simp add: uint_sub_if_size)
  then show ?thesis by simp
next
  case False
  then have lt: "uint n < 4" by (simp add: word_le_def)
  then have wrapped: "uint (n - 4) = uint n - 4 + 2 ^ 64"
    by (simp add: uint_sub_if_size word_size)
  have ge: "0 \<le> uint n" by simp
  from wrapped ge assms have "uint (n - 4) \<noteq> e" by linarith
  moreover from lt assms have "uint n - 4 \<noteq> e" by linarith
  ultimately show ?thesis by simp
qed

lemma six_slot_count: "getVirtualMethodCount six_slot_heap 4096 = Some (Inr 6)"
  by (simp add: six_slot_heap_def getVirtualMethodCount_def getVirtualMethodCount_loop.simps)

lemma four_slot_instance: "instance_with_table four_slot_heap 4096 four_entries"
  by (simp add: instance_with_table_def four_slot_heap_def four_entries_def)


lemma lp64_member_pointers:
  "member_pointer (lp64_abi vt) vfunc1 = 1" "member_pointer (lp64_abi vt) vfunc2 = 9"
  "member_pointer (lp64_abi vt) vfunc3 = 17" "member_pointer (lp64_abi vt) vfunc4 = 25"
  by (simp_all add: lp64_abi_def member_pointer_in_def slots_of_B_def slots_of_chain_def
      A_virtuals_def B_virtuals_def encode_def)


section \<open>The claims\<close>

text \<open>
  C1. For an instance whose first word is the address of a zero-terminated table with
  entries \<open>es\<close>, \<open>getVirtualMethodCount\<close> returns, and what it returns is the number of
  entries: the index of the first zero word, the sentinel not counted. The count fits
  the 64-bit counter without wrapping.
\<close>

theorem getVirtualMethodCount_counts_table:
  assumes "instance_with_table h t es"
  shows "getVirtualMethodCount h t = Some (Inr (of_nat (length es))) \<and>
         unat (of_nat (length es) :: ulong) = length es"
proof -
  from assms obtain vtable0 where "table_at h vtable0 es"
    by (auto simp: instance_with_table_def split: option.splits)
  from table_at_length [OF this] have "length es < 2 ^ 64"
    by (rule less_trans) simp
  then have "unat (of_nat (length es) :: ulong) = length es"
    by (simp add: unat_of_nat)
  with instance_with_table_count [OF assms] show ?thesis by simp
qed

theorem getVirtualMethodCount_counts_table_witness:
  "instance_with_table [4096 \<mapsto> 8192, 8192 \<mapsto> 4198400, 8200 \<mapsto> 4198416, 8208 \<mapsto> 0]
      4096 [4198400, 4198416] \<and>
   getVirtualMethodCount [4096 \<mapsto> 8192, 8192 \<mapsto> 4198400, 8200 \<mapsto> 4198416, 8208 \<mapsto> 0] 4096
     = Some (Inr 2)"
proof -
  have i: "instance_with_table [4096 \<mapsto> 8192, 8192 \<mapsto> 4198400, 8200 \<mapsto> 4198416, 8208 \<mapsto> 0]
      4096 [4198400, 4198416]"
    by (simp add: instance_with_table_def)
  from getVirtualMethodCount_counts_table [OF i] i show ?thesis by simp
qed

text \<open>
  C2. \<open>decodeSlot\<close> is a left inverse of the encoding: for every slot index \<open>i\<close> that
  is not negative and every pointer width, an even number other than zero (so that the
  raw value \<open>i * w + 1\<close> is odd, as section 3 requires of every encoding), decoding the
  raw value gives \<open>i\<close> again.
\<close>

theorem decodeSlot_left_inverse:
  assumes "0 \<le> i" and "pointerWidth \<noteq> 0" and "even pointerWidth"
  shows "odd (encode i pointerWidth) \<and>
         decodeSlot (encode i pointerWidth) pointerWidth = Inr i"
  using assms by (simp add: decodeSlot_def encode_def Let_def)

theorem decodeSlot_left_inverse_witness:
  "(0::int) \<le> 3 \<and> (8::int) \<noteq> 0 \<and> even (8::int) \<and> encode 3 8 = 25 \<and>
   decodeSlot (encode 3 8) 8 = Inr 3"
  using decodeSlot_left_inverse [of 3 8] by (simp add: encode_def)

text \<open>
  C3. \<open>decodeSlot\<close> fails with \<open>NotAVirtualMemberPointer\<close> on every even raw value,
  whatever the pointer width, on every input where \<open>rawValue - 1\<close> is not a multiple of
  the pointer width, and on every input whose quotient is negative; and where it yields
  a slot index, the raw value is odd, \<open>rawValue - 1\<close> is a multiple of the pointer
  width, and the index is the quotient, not negative.
\<close>

theorem decodeSlot_rejects:
  "(even rawValue \<longrightarrow> decodeSlot rawValue pointerWidth = Inl NotAVirtualMemberPointer) \<and>
   (\<not> pointerWidth dvd (rawValue - 1) \<longrightarrow>
      decodeSlot rawValue pointerWidth = Inl NotAVirtualMemberPointer) \<and>
   ((rawValue - 1) div pointerWidth < 0 \<longrightarrow>
      decodeSlot rawValue pointerWidth = Inl NotAVirtualMemberPointer) \<and>
   (decodeSlot rawValue pointerWidth = Inr index \<longrightarrow>
      odd rawValue \<and> pointerWidth dvd (rawValue - 1) \<and> pointerWidth \<noteq> 0 \<and>
      index = (rawValue - 1) div pointerWidth \<and> 0 \<le> index)"
  by (auto simp: decodeSlot_def Let_def split: if_splits)

theorem decodeSlot_rejects_witness:
  "decodeSlot 16 8 = Inl NotAVirtualMemberPointer \<and>
   decodeSlot 5 8 = Inl NotAVirtualMemberPointer \<and>
   decodeSlot (- 7) 8 = Inl NotAVirtualMemberPointer \<and>
   decodeSlot 17 8 = Inr 2"
proof -
  have a: "decodeSlot 17 8 = Inr 2" by (simp add: decodeSlot_def)
  from decodeSlot_rejects [of 16 8 0] decodeSlot_rejects [of 5 8 0]
       decodeSlot_rejects [of "- 7" 8 0] decodeSlot_rejects [of 17 8 2] a
  show ?thesis by simp
qed

text \<open>
  C4. For every instance, descriptor and expected count, \<open>validate\<close> is the scan
  followed by the comparison: where the scan returns \<open>observed\<close>, the result is the
  truth value of \<open>observed - chainDepth * baselinePerLevel = expected\<close>; a scan that
  faults or does not return is passed on. With the descriptor of the source (depth 2,
  baseline 2) and an expected count from 0 to below \<open>2 ^ 64 - 4\<close>, that is comparing
  the value \<open>getVirtualMethodCountSCPDriver\<close> returns with the expected count.
\<close>

theorem validate_contract:
  "validate h inst d e =
     (case getVirtualMethodCount h inst of
        None \<Rightarrow> None
      | Some (Inl f) \<Rightarrow> Some (Inl f)
      | Some (Inr observed) \<Rightarrow>
          Some (Inr (uint observed - chainDepth d * baselinePerLevel d = e))) \<and>
   (0 \<le> e \<and> e < 2 ^ 64 - 4 \<longrightarrow>
      validate h inst \<lparr>chainDepth = 2, baselinePerLevel = 2\<rparr> e =
        (case getVirtualMethodCountSCPDriver h inst of
           None \<Rightarrow> None
         | Some (Inl f) \<Rightarrow> Some (Inl f)
         | Some (Inr attributable) \<Rightarrow> Some (Inr (uint attributable = e))))"
proof (intro conjI impI)
  show "validate h inst d e =
     (case getVirtualMethodCount h inst of
        None \<Rightarrow> None
      | Some (Inl f) \<Rightarrow> Some (Inl f)
      | Some (Inr observed) \<Rightarrow>
          Some (Inr (uint observed - chainDepth d * baselinePerLevel d = e)))"
    by (simp add: validate_def Let_def split: option.splits sum.splits)
next
  assume e: "0 \<le> e \<and> e < 2 ^ 64 - 4"
  then have "\<And>n :: ulong. (uint (n - 4) = e) = (uint n - 4 = e)"
    by (simp add: uint_minus_4_eq)
  then show "validate h inst \<lparr>chainDepth = 2, baselinePerLevel = 2\<rparr> e =
        (case getVirtualMethodCountSCPDriver h inst of
           None \<Rightarrow> None
         | Some (Inl f) \<Rightarrow> Some (Inl f)
         | Some (Inr attributable) \<Rightarrow> Some (Inr (uint attributable = e)))"
    by (simp add: validate_def getVirtualMethodCountSCPDriver_def Let_def
        split: option.splits sum.splits)
qed

theorem validate_contract_witness:
  "validate six_slot_heap 4096 \<lparr>chainDepth = 2, baselinePerLevel = 2\<rparr> 2 = Some (Inr True) \<and>
   getVirtualMethodCountSCPDriver six_slot_heap 4096 = Some (Inr 2)"
proof -
  have c: "getVirtualMethodCountSCPDriver six_slot_heap 4096 = Some (Inr 2)"
    by (simp add: six_slot_count getVirtualMethodCountSCPDriver_def)
  from validate_contract [of six_slot_heap 4096 "\<lparr>chainDepth = 2, baselinePerLevel = 2\<rparr>" 2] c
  show ?thesis by (simp add: six_slot_count)
qed

text \<open>
  C5, as stated, fails: the two slots that \<^verbatim>\<open>B\<close> declares itself do not have the raw
  values 1 and 9; and were 1 and 9 the values that the compiler gives to \<^verbatim>\<open>&B::vfunc3\<close>
  and \<^verbatim>\<open>&B::vfunc4\<close>, the check of the source would fail with 17.
\<close>

theorem single_level_new_slots_counterexample:
  "map (member_pointer_in slots_of_B 8) B_virtuals \<noteq> [Some 1, Some 9] \<and>
   fst (doCheckMethodPoint
          \<lparr>vtable_of_B = 8192,
           member_pointer = (\<lambda>m. if m = vfunc1 \<or> m = vfunc3 then 1 else 9)\<rparr>
          4096 \<lparr>mem = Map.empty, out = []\<rparr>) = 17"
  by (simp add: member_pointer_in_def slots_of_B_def slots_of_chain_def
      A_virtuals_def B_virtuals_def encode_def doCheckMethodPoint_def Let_def)

text \<open>
  C5, amended. In the single-level scenario (class \<^verbatim>\<open>B\<close>: two slots inherited from
  \<^verbatim>\<open>A\<close>, two declared by \<^verbatim>\<open>B\<close>, pointer width 8): the member pointers of the two
  inherited slots have the raw values 1 and 9, those of the two new slots 17 and 25,
  which are the four values \<open>doCheckMethodPoint\<close> checks, so that it returns 0 (and it
  returns 0 for no other values of the four pointers); on an
  instance with a zero-terminated table of these four slots the count is 4 and
  \<open>validate\<close> with depth 1, baseline 2 and expected count 2 is true.
\<close>

theorem single_level_scenario:
  assumes "instance_with_table h inst es" and "length es = length slots_of_B"
  shows "map (member_pointer_in slots_of_B 8) A_virtuals = [Some 1, Some 9] \<and>
         map (member_pointer_in slots_of_B 8) B_virtuals = [Some 17, Some 25] \<and>
         fst (doCheckMethodPoint (lp64_abi vt) table w) = 0 \<and>
         (fst (doCheckMethodPoint abi' table w) = 0 \<longrightarrow>
            map (member_pointer abi') A_virtuals = [1, 9] \<and>
            map (member_pointer abi') B_virtuals = [17, 25]) \<and>
         getVirtualMethodCount h inst = Some (Inr 4) \<and>
         validate h inst \<lparr>chainDepth = 1, baselinePerLevel = 2\<rparr> 2 = Some (Inr True)"
proof -
  have n: "length es = 4"
    using assms(2) by (simp add: slots_of_B_def slots_of_chain_def A_virtuals_def B_virtuals_def)
  from instance_with_table_count [OF assms(1)] n
  have c: "getVirtualMethodCount h inst = Some (Inr 4)" by simp
  have "map (member_pointer_in slots_of_B 8) A_virtuals = [Some 1, Some 9]"
    "map (member_pointer_in slots_of_B 8) B_virtuals = [Some 17, Some 25]"
    by (simp_all add: member_pointer_in_def slots_of_B_def slots_of_chain_def
        A_virtuals_def B_virtuals_def encode_def)
  moreover have "fst (doCheckMethodPoint (lp64_abi vt) table w) = 0"
    by (simp add: doCheckMethodPoint_def lp64_member_pointers Let_def)
  moreover have "fst (doCheckMethodPoint abi' table w) = 0 \<longrightarrow>
      map (member_pointer abi') A_virtuals = [1, 9] \<and>
      map (member_pointer abi') B_virtuals = [17, 25]"
    by (simp add: doCheckMethodPoint_def Let_def A_virtuals_def B_virtuals_def)
  moreover have "validate h inst \<lparr>chainDepth = 1, baselinePerLevel = 2\<rparr> 2 = Some (Inr True)"
    by (simp add: validate_def c)
  ultimately show ?thesis using c by simp
qed

theorem single_level_scenario_witness:
  "instance_with_table four_slot_heap 4096 four_entries \<and>
   length four_entries = length slots_of_B \<and>
   getVirtualMethodCount four_slot_heap 4096 = Some (Inr 4) \<and>
   validate four_slot_heap 4096 \<lparr>chainDepth = 1, baselinePerLevel = 2\<rparr> 2 = Some (Inr True) \<and>
   fst (doCheckMethodPoint (lp64_abi 4198400) 4096 \<lparr>mem = four_slot_heap, out = []\<rparr>) = 0 \<and>
   map (member_pointer (lp64_abi 4198400)) B_virtuals = [17, 25]"
proof -
  have l: "length four_entries = length slots_of_B"
    by (simp add: four_entries_def slots_of_B_def slots_of_chain_def A_virtuals_def B_virtuals_def)
  from single_level_scenario [OF four_slot_instance l, of 4198400 4096
      "\<lparr>mem = four_slot_heap, out = []\<rparr>" "lp64_abi 4198400"] four_slot_instance l
  show ?thesis by simp
qed



text \<open>
  C7. For an instance with a table address in its first word: when some word of the
  table is zero and the words before it are mapped, the scan returns, with the index
  of the first zero word, which is at most the given one; when every word the scan can
  reach is mapped and not zero, it never returns: the loop has no bound of its own.
\<close>

theorem getVirtualMethodCount_terminates_iff_sentinel:
  assumes "h t = Some vtable0"
  shows "(h (vtable0 + 8 * j) = Some 0 \<and> (\<forall>k<j. h (vtable0 + 8 * k) \<noteq> None) \<longrightarrow>
            (\<exists>i. getVirtualMethodCount h t = Some (Inr i) \<and> i \<le> j \<and>
                 h (vtable0 + 8 * i) = Some 0 \<and> (\<forall>k<i. h (vtable0 + 8 * k) \<noteq> Some 0))) \<and>
         ((\<forall>k. \<exists>v. h (vtable0 + 8 * k) = Some v \<and> v \<noteq> 0) \<longrightarrow>
            getVirtualMethodCount h t = None)"
proof (intro conjI impI)
  assume a: "h (vtable0 + 8 * j) = Some 0 \<and> (\<forall>k<j. h (vtable0 + 8 * k) \<noteq> None)"
  then have "\<forall>k. 0 \<le> k \<and> k < j \<longrightarrow> h (vtable0 + 8 * k) \<noteq> None" by simp
  with loop_reaches_sentinel [of 0 j h vtable0] a
  show "\<exists>i. getVirtualMethodCount h t = Some (Inr i) \<and> i \<le> j \<and>
             h (vtable0 + 8 * i) = Some 0 \<and> (\<forall>k<i. h (vtable0 + 8 * k) \<noteq> Some 0)"
    using assms by (simp add: getVirtualMethodCount_def)
next
  assume nz: "\<forall>k. \<exists>v. h (vtable0 + 8 * k) = Some v \<and> v \<noteq> 0"
  show "getVirtualMethodCount h t = None"
  proof (cases "getVirtualMethodCount_loop h vtable0 0")
    case None
    with assms show ?thesis by (simp add: getVirtualMethodCount_def)
  next
    case (Some r)
    from loop_stops_at_zero_or_unmapped [OF this] nz have False
      by (cases r) (auto, metis option.distinct(1), metis option.inject)
    then show ?thesis ..
  qed
qed

theorem getVirtualMethodCount_terminates_iff_sentinel_witness:
  "(\<exists>i. getVirtualMethodCount [4096 \<mapsto> 8192, 8192 \<mapsto> 4198400, 8200 \<mapsto> 0] 4096 = Some (Inr i) \<and>
        i \<le> 1 \<and> [4096 \<mapsto> 8192, 8192 \<mapsto> 4198400, 8200 \<mapsto> (0::long)] (8192 + 8 * i) = Some 0) \<and>
   getVirtualMethodCount (\<lambda>a. Some 1) 0 = None"
proof -
  let ?h = "[4096 \<mapsto> 8192, 8192 \<mapsto> 4198400, 8200 \<mapsto> (0::long)] :: heap"
  have t: "?h 4096 = Some 8192" by simp
  have s: "?h (8192 + 8 * 1) = Some 0 \<and> (\<forall>k<1. ?h (8192 + 8 * k) \<noteq> None)" by simp
  have t': "(\<lambda>a. Some 1 :: long option) 0 = Some 1" by simp
  have nz: "\<forall>k. \<exists>v. (\<lambda>a. Some 1 :: long option) (1 + 8 * k) = Some v \<and> v \<noteq> 0" by simp
  from getVirtualMethodCount_terminates_iff_sentinel [of ?h 4096 8192 1] t s
  have a: "\<exists>i. getVirtualMethodCount ?h 4096 = Some (Inr i) \<and> i \<le> 1 \<and>
             ?h (8192 + 8 * i) = Some 0" by blast
  from getVirtualMethodCount_terminates_iff_sentinel [of "\<lambda>a. Some 1" 0 1 0] nz
  have b: "getVirtualMethodCount (\<lambda>a. Some 1) 0 = None" by simp
  from a b show ?thesis by simp
qed

text \<open>
  C8, as stated, fails where it cites \<open>doCheckMethodPoint\<close> for a step with no I/O: run
  with nothing printed so far, on the path where its four comparisons succeed, the
  function ends with calls of \<^verbatim>\<open>printf\<close> made.
\<close>

theorem doCheckMethodPoint_prints_counterexample:
  "out (snd (doCheckMethodPoint (lp64_abi 4198400) 4096 \<lparr>mem = Map.empty, out = []\<rparr>)) \<noteq> []"
  by (simp add: doCheckMethodPoint_def lp64_member_pointers Let_def printed_def)

text \<open>
  C8, amended. The slot counter, the numeric decoding step and the shape validator are
  pure reads: each returns exactly when its function of the memory returns, with that
  result and with the state it was given, memory and output unchanged. The check of the
  encoding in the source, \<open>doCheckMethodPoint\<close>, performs output: when its four
  comparisons succeed and it returns 0, it has added its four calls of \<^verbatim>\<open>printf\<close> to
  the output; when one of them fails, it has added nothing.
\<close>

theorem operations_leave_state_unchanged:
  "getVirtualMethodCount_run t w = map_option (\<lambda>r. (r, w)) (getVirtualMethodCount (mem w) t) \<and>
   validate_run t d e w = map_option (\<lambda>r. (r, w)) (validate (mem w) t d e) \<and>
   decodeSlot_run rawValue pointerWidth w = Some (decodeSlot rawValue pointerWidth, w) \<and>
   out (snd (doCheckMethodPoint abi table w)) =
     (if fst (doCheckMethodPoint abi table w) = 0 then out w @ printed abi else out w) \<and>
   length (printed abi) = 4"
  by (simp add: getVirtualMethodCount_run_eq validate_run_eq decodeSlot_run_def
      doCheckMethodPoint_def Let_def printed_def)

theorem operations_leave_state_unchanged_witness:
  "getVirtualMethodCount_run 4096 \<lparr>mem = four_slot_heap, out = []\<rparr> =
     Some (Inr 4, \<lparr>mem = four_slot_heap, out = []\<rparr>) \<and>
   validate_run 4096 \<lparr>chainDepth = 1, baselinePerLevel = 2\<rparr> 2 \<lparr>mem = four_slot_heap, out = []\<rparr> =
     Some (Inr True, \<lparr>mem = four_slot_heap, out = []\<rparr>) \<and>
   decodeSlot_run 17 8 \<lparr>mem = four_slot_heap, out = []\<rparr> =
     Some (Inr 2, \<lparr>mem = four_slot_heap, out = []\<rparr>) \<and>
   out (snd (doCheckMethodPoint (lp64_abi 4198400) 4096 \<lparr>mem = Map.empty, out = []\<rparr>)) =
     printed (lp64_abi 4198400)"
proof -
  have c: "getVirtualMethodCount four_slot_heap 4096 = Some (Inr 4)"
    using instance_with_table_count [OF four_slot_instance] by (simp add: four_entries_def)
  have v: "validate four_slot_heap 4096 \<lparr>chainDepth = 1, baselinePerLevel = 2\<rparr> 2 = Some (Inr True)"
    by (simp add: validate_def c)
  have d: "decodeSlot 17 8 = Inr 2" by (simp add: decodeSlot_def)
  have z: "fst (doCheckMethodPoint (lp64_abi 4198400) 4096 \<lparr>mem = Map.empty, out = []\<rparr>) = 0"
    by (simp add: doCheckMethodPoint_def lp64_member_pointers Let_def)
  from operations_leave_state_unchanged [of 4096 "\<lparr>mem = four_slot_heap, out = []\<rparr>"
      "\<lparr>chainDepth = 1, baselinePerLevel = 2\<rparr>" 2 17 8]
    operations_leave_state_unchanged [of 4096 "\<lparr>mem = Map.empty, out = []\<rparr>"
      "\<lparr>chainDepth = 1, baselinePerLevel = 2\<rparr>" 2 17 8 "lp64_abi 4198400" 4096]
    c v d z
  show ?thesis by simp
qed

text \<open>
  C9. Where the scan returns \<open>n\<close>, \<open>getVirtualMethodCountSCPDriver\<close> returns the 64-bit
  word \<open>n - 4\<close> and no error: below 4 the difference wraps to \<open>2 ^ 64 - 4 + n\<close>, from 4
  on it is the difference of the numbers.
\<close>

theorem getVirtualMethodCountSCPDriver_wraps:
  assumes "getVirtualMethodCount h scpDriver = Some (Inr n)"
  shows "getVirtualMethodCountSCPDriver h scpDriver = Some (Inr (n - 4)) \<and>
         (n < 4 \<longrightarrow> unat (n - 4) = 2 ^ 64 - 4 + unat n) \<and>
         (4 \<le> n \<longrightarrow> unat (n - 4) = unat n - 4)"
proof (intro conjI impI)
  show "getVirtualMethodCountSCPDriver h scpDriver = Some (Inr (n - 4))"
    using assms by (simp add: getVirtualMethodCountSCPDriver_def)
next
  assume "n < 4"
  then have "unat n < 4" by (simp add: word_less_nat_alt)
  then show "unat (n - 4) = 2 ^ 64 - 4 + unat n"
    by (simp add: unat_sub_if_size word_size)
next
  assume "4 \<le> n"
  then show "unat (n - 4) = unat n - 4"
    by (simp add: unat_sub)
qed

theorem getVirtualMethodCountSCPDriver_wraps_witness:
  "getVirtualMethodCount [4096 \<mapsto> 8192, 8192 \<mapsto> 4198400, 8200 \<mapsto> 0] 4096 = Some (Inr 1) \<and>
   getVirtualMethodCountSCPDriver [4096 \<mapsto> 8192, 8192 \<mapsto> 4198400, 8200 \<mapsto> 0] 4096
     = Some (Inr 18446744073709551613) \<and>
   unat (1 - 4 :: ulong) = 18446744073709551613"
proof -
  have c: "getVirtualMethodCount [4096 \<mapsto> 8192, 8192 \<mapsto> 4198400, 8200 \<mapsto> 0] 4096 = Some (Inr 1)"
    by (simp add: getVirtualMethodCount_def getVirtualMethodCount_loop.simps)
  from getVirtualMethodCountSCPDriver_wraps [OF c] c show ?thesis by simp
qed

text \<open>
  C10. For every round number, the body of \<open>computeTimeout\<close> is the one expression
  statement, whose value 100 is dropped; the run reaches the end of the body with no
  value to return, so the call has no result. The sibling \<open>computeHashNode\<close>, which
  has a \<^verbatim>\<open>return\<close>, has one.
\<close>

theorem computeTimeout_no_result:
  "computeTimeout_body roundNumber = [Expr 100] \<and>
   run_body (computeTimeout_body roundNumber) = None \<and>
   computeTimeout roundNumber = Inl NoReturnValue \<and>
   computeHashNode = Inr 0"
  by (simp add: computeTimeout_def computeTimeout_body_def call_non_void_def
      computeHashNode_def computeHashNode_body_def)

end
